theory Spec2Isabelle
  imports Main "HOL-Library.List_Lexorder" "HOL-Library.Char_ord" "HOL-Library.Mapping"
    "HOL-Library.RBT_Mapping"
begin

section \<open>The syntax tree the generator walks\<close>

text \<open>
  The generator (\<^verbatim>\<open>src/example/arith.go\<close>, from \<^verbatim>\<open>package main\<close> on) receives
  a parsed Go file from \<^verbatim>\<open>go/parser\<close> and walks it with \<^verbatim>\<open>ast.Walk\<close>.
  The part of \<^verbatim>\<open>go/ast\<close> it inspects is embedded as datatypes.  Go strings are
  byte sequences and so are HOL strings.  A \<^verbatim>\<open>token.Pos\<close> is a number; every
  field carries the position that \<^verbatim>\<open>Field.Pos()\<close> returns for it.  A function
  type has its parameter list (never \<^verbatim>\<open>nil\<close> in a parsed file) and its result
  list, which is \<^verbatim>\<open>nil\<close> when the signature has no result; the length of an
  array type is absent for a slice.  An entry of the method list of an interface type
  is a field: a method has one name and a function type, an embedded interface has no
  name and the type that names it.
\<close>

type_synonym pos = nat

datatype expr =
    Ident string
  | StarExpr expr
  | SelectorExpr expr string
  | MapType expr expr
  | ArrayType "expr option" expr
  | FuncType "field list" "field list option"
  | ChanType expr
  | StructType "field list"
  | InterfaceType "field list"
  | Ellipsis expr
  | ParenExpr expr
  | BasicLit string
and field = Field (field_Pos: pos) (field_Names: "string list") (field_Type: expr)

text \<open>
  \<^verbatim>\<open>ast.ImportSpec\<close>: the optional local name and the path literal, quotes included
  (\<^verbatim>\<open>imp.Path.Value\<close>).
\<close>

record ImportSpec =
  imp_Name :: "string option"
  imp_Path_Value :: string

text \<open>
  The declarations of a file.  \<^verbatim>\<open>RPCGen.Visit\<close> reacts to import and type
  specifications only, so a function declaration is kept as the specifications of the
  declaration statements in its body, in the order the walk reaches them, and every
  other specification is one opaque node.
\<close>

datatype spec =
    Import ImportSpec
  | TypeSpec string expr
  | ValueSpec

datatype decl =
    GenDecl "spec list"
  | FuncDecl string "spec list"
  | BadDecl

record File =
  file_Name :: string
  Decls :: "decl list"

section \<open>The generation model\<close>

record Type =
  Names :: "string list"
  LowerNames :: "string list"
  Type :: string

record Method =
  Name :: string
  Parameters :: "Type list"
  Results :: "Type list"

text \<open>
  \<^verbatim>\<open>RPCGen\<close>.  \<^verbatim>\<open>Imports\<close> is a Go \<^verbatim>\<open>map[string]bool\<close>.  The file set is
  used to print positions and types only: positions are kept as they are and the
  printer is a parameter of the functions below.
\<close>

record RPCGen =
  Service :: string
  gen_Type :: string
  Package :: string
  Methods :: "Method list"
  Imports :: "(string, bool) mapping"
  RPCType :: string
  CheckImports :: "ImportSpec list"

text \<open>
  How the process can end early: \<^verbatim>\<open>fatalNode\<close> (position and message),
  \<^verbatim>\<open>fatalf\<close>, the panic of \<^verbatim>\<open>types\<close>, and the two run-time panics of Go
  that the code can reach (a slice expression out of range, an index out of range).
\<close>

datatype error =
    FatalNode pos string
  | Fatalf string
  | UnknownExpressionNode expr
  | SliceBoundsOutOfRange
  | IndexOutOfRange

text \<open>\<^verbatim>\<open>printer.Fprint(&typeBuf, fileset, field.Type)\<close> followed by \<^verbatim>\<open>typeBuf.String()\<close>.\<close>

type_synonym printer = "expr \<Rightarrow> string"

section \<open>Library functions\<close>

text \<open>\<^verbatim>\<open>strings.Join\<close>.\<close>

fun strings_Join :: "string list \<Rightarrow> string \<Rightarrow> string" where
  "strings_Join [] sep = []"
| "strings_Join [x] sep = x"
| "strings_Join (x # y # ys) sep = x @ sep @ strings_Join (y # ys) sep"

text \<open>\<^verbatim>\<open>strings.Split\<close> with a separator of one byte.\<close>

fun strings_Split :: "string \<Rightarrow> char \<Rightarrow> string list" where
  "strings_Split [] c = [[]]"
| "strings_Split (x # xs) c =
     (if x = c then [] # strings_Split xs c
      else (case strings_Split xs c of
              [] \<Rightarrow> [[x]]
            | w # ws \<Rightarrow> (x # w) # ws))"

text \<open>\<^verbatim>\<open>strings.SplitN(s, sep, 2)\<close> with a separator of one byte.\<close>

definition strings_SplitN2 :: "string \<Rightarrow> char \<Rightarrow> string list" where
  "strings_SplitN2 s c =
     (if c \<in> set s then [takeWhile (\<lambda>x. x \<noteq> c) s, tl (dropWhile (\<lambda>x. x \<noteq> c) s)]
      else [s])"

text \<open>\<^verbatim>\<open>filepath.Base\<close> where the separator is the slash and there are no volume names.\<close>

definition stripTrailingSlashes :: "string \<Rightarrow> string" where
  "stripTrailingSlashes p = rev (dropWhile (\<lambda>x. x = CHR ''/'') (rev p))"

definition lastElement :: "string \<Rightarrow> string" where
  "lastElement p = rev (takeWhile (\<lambda>x. x \<noteq> CHR ''/'') (rev p))"

definition filepath_Base :: "string \<Rightarrow> string" where
  "filepath_Base path =
     (if path = [] then ''.''
      else (let p = lastElement (stripTrailingSlashes path)
            in if p = [] then ''/'' else p))"

text \<open>
  \<^verbatim>\<open>strings.ToUpper\<close> on the one-byte string \<^verbatim>\<open>lowerName[0:1]\<close>: an ASCII
  lower-case letter becomes its capital, any other ASCII byte stays, and a byte from
  0x80 on, which alone is not valid UTF-8, comes out as the replacement character
  U+FFFD (\<^verbatim>\<open>strings.Map\<close>).
\<close>

definition ToUpper_byte :: "char \<Rightarrow> string" where
  "ToUpper_byte c =
     (let n = (of_char c :: nat)
      in if 97 \<le> n \<and> n \<le> 122 then [char_of (n - 32)]
         else if n < 128 then [c]
         else [CHR 0xEF, CHR 0xBF, CHR 0xBD])"

section \<open>Collecting type names: \<^verbatim>\<open>types\<close>\<close>

fun types :: "expr \<Rightarrow> error + string list" where
  "types (StarExpr x) = types x"
| "types (SelectorExpr x sel) =
     (case types x of
        Inl e \<Rightarrow> Inl e
      | Inr xs \<Rightarrow> (case types (Ident sel) of
                    Inl e \<Rightarrow> Inl e
                  | Inr ss \<Rightarrow> Inr [strings_Join (xs @ ss) ''.'']))"
| "types (MapType k v) =
     (case types k of
        Inl e \<Rightarrow> Inl e
      | Inr keys \<Rightarrow> (case types v of
                      Inl e \<Rightarrow> Inl e
                    | Inr vs \<Rightarrow> Inr (keys @ vs)))"
| "types (ArrayType len elt) = types elt"
| "types (Ident n) = Inr [n]"
| "types t = Inl (UnknownExpressionNode t)"

section \<open>Formatting one field: \<^verbatim>\<open>formatType\<close>\<close>

text \<open>The loop over \<^verbatim>\<open>r.CheckImports\<close> for one qualifier \<^verbatim>\<open>parts[0]\<close>.\<close>

fun checkImports :: "(string, bool) mapping \<Rightarrow> string \<Rightarrow> ImportSpec list \<Rightarrow> error + (string, bool) mapping" where
  "checkImports im q [] = Inr im"
| "checkImports im q (imp # imps) =
     (let v = imp_Path_Value imp in
      if length v < 2 then Inl SliceBoundsOutOfRange
      else (let importPath = butlast (tl v) in
            if imp_Name imp \<noteq> None \<and> the (imp_Name imp) = q
            then checkImports (Mapping.update (the (imp_Name imp) @ '' '' @ importPath) True im) q imps
            else if filepath_Base importPath = q
            then checkImports (Mapping.update importPath True im) q imps
            else checkImports im q imps))"

text \<open>The loop over \<^verbatim>\<open>types(field.Type)\<close>.\<close>

fun registerImports :: "(string, bool) mapping \<Rightarrow> ImportSpec list \<Rightarrow> string list \<Rightarrow> error + (string, bool) mapping" where
  "registerImports im cis [] = Inr im"
| "registerImports im cis (typeName # rest) =
     (let parts = strings_SplitN2 typeName CHR ''.'' in
      if length parts > 1
      then (case checkImports im (hd parts) cis of
              Inl e \<Rightarrow> Inl e
            | Inr im' \<Rightarrow> registerImports im' cis rest)
      else registerImports im cis rest)"

text \<open>The loop over \<^verbatim>\<open>field.Names\<close>, appending to \<^verbatim>\<open>t.Names\<close> and \<^verbatim>\<open>t.LowerNames\<close>.\<close>

fun appendNames :: "Type \<Rightarrow> string list \<Rightarrow> error + Type" where
  "appendNames t [] = Inr t"
| "appendNames t (lowerName # ns) =
     (case lowerName of
        [] \<Rightarrow> Inl SliceBoundsOutOfRange
      | c # cs \<Rightarrow>
          (let name = ToUpper_byte c @ cs
           in appendNames (t\<lparr>Names := Names t @ [name], LowerNames := LowerNames t @ [lowerName]\<rparr>) ns))"

definition formatType :: "printer \<Rightarrow> RPCGen \<Rightarrow> field \<Rightarrow> error + (Type \<times> RPCGen)" where
  "formatType pr r fld =
     (let typeBuf = pr (field_Type fld) in
      if length (field_Names fld) = 0
      then Inl (FatalNode (field_Pos fld) ''RPC interface parameters and results must all be named'')
      else (case types (field_Type fld) of
              Inl e \<Rightarrow> Inl e
            | Inr typeNames \<Rightarrow>
               (case registerImports (Imports r) (CheckImports r) typeNames of
                  Inl e \<Rightarrow> Inl e
                | Inr im \<Rightarrow>
                   (case appendNames \<lparr>Names = [], LowerNames = [], Type = typeBuf\<rparr> (field_Names fld) of
                      Inl e \<Rightarrow> Inl e
                    | Inr t \<Rightarrow> Inr (t, r\<lparr>Imports := im\<rparr>)))))"

section \<open>Extracting the methods: \<^verbatim>\<open>VisitMethodList\<close>\<close>

text \<open>The loop over \<^verbatim>\<open>t.Params.List\<close>.\<close>

fun formatParams :: "printer \<Rightarrow> RPCGen \<Rightarrow> Method \<Rightarrow> field list \<Rightarrow> error + (Method \<times> RPCGen)" where
  "formatParams pr r method [] = Inr (method, r)"
| "formatParams pr r method (v # vs) =
     (case formatType pr r v of
        Inl e \<Rightarrow> Inl e
      | Inr (t, r') \<Rightarrow> formatParams pr r' (method\<lparr>Parameters := Parameters method @ [t]\<rparr>) vs)"

text \<open>The loop over \<^verbatim>\<open>t.Results.List\<close>, with the flag \<^verbatim>\<open>hasError\<close>.\<close>

fun formatResults :: "printer \<Rightarrow> RPCGen \<Rightarrow> Method \<Rightarrow> bool \<Rightarrow> field list \<Rightarrow> error + (Method \<times> bool \<times> RPCGen)" where
  "formatResults pr r method hasError [] = Inr (method, hasError, r)"
| "formatResults pr r method hasError (v # vs) =
     (case formatType pr r v of
        Inl e \<Rightarrow> Inl e
      | Inr (result, r') \<Rightarrow>
          if Type result = ''error''
          then formatResults pr r' method True vs
          else formatResults pr r' (method\<lparr>Results := Results method @ [result]\<rparr>) hasError vs)"

definition missingError :: "string \<Rightarrow> string" where
  "missingError name = ''method '' @ name @ '' must have error as last return value''"

text \<open>The body of the \<^verbatim>\<open>*ast.FuncType\<close> case for the entry \<^verbatim>\<open>m\<close>.\<close>

definition visitMethod :: "printer \<Rightarrow> RPCGen \<Rightarrow> field \<Rightarrow> field list \<Rightarrow> field list option \<Rightarrow> error + RPCGen" where
  "visitMethod pr r m params results =
     (case field_Names m of
        [] \<Rightarrow> Inl IndexOutOfRange
      | name # _ \<Rightarrow>
         (case formatParams pr r \<lparr>Name = name, Parameters = [], Results = []\<rparr> params of
            Inl e \<Rightarrow> Inl e
          | Inr (method, r1) \<Rightarrow>
             (case (case results of
                      None \<Rightarrow> Inr (method, False, r1)
                    | Some rs \<Rightarrow> formatResults pr r1 method False rs) of
                Inl e \<Rightarrow> Inl e
              | Inr (method', hasError, r2) \<Rightarrow>
                  if \<not> hasError
                  then Inl (FatalNode (field_Pos m) (missingError (Name method')))
                  else Inr (r2\<lparr>Methods := Methods r2 @ [method']\<rparr>))))"

fun VisitMethodList :: "printer \<Rightarrow> RPCGen \<Rightarrow> field list \<Rightarrow> error + RPCGen" where
  "VisitMethodList pr r [] = Inr r"
| "VisitMethodList pr r (m # ms) =
     (case field_Type m of
        FuncType params results \<Rightarrow>
          (case visitMethod pr r m params results of
             Inl e \<Rightarrow> Inl e
           | Inr r' \<Rightarrow> VisitMethodList pr r' ms)
      | _ \<Rightarrow> VisitMethodList pr r ms)"

section \<open>Walking the file: \<^verbatim>\<open>RPCGen.Visit\<close> and \<^verbatim>\<open>InterfaceGen.Visit\<close>\<close>

text \<open>
  \<^verbatim>\<open>ast.Walk\<close> calls \<^verbatim>\<open>Visit\<close> on a node and walks the children with the
  visitor that comes back.  For a type specification whose name is the requested one
  that visitor is an \<^verbatim>\<open>InterfaceGen\<close>: it sees the name and the type of the
  specification, calls \<^verbatim>\<open>VisitMethodList\<close> when the type is an interface type,
  and hands the walk back to the \<^verbatim>\<open>RPCGen\<close>, for which the nodes below are
  neither import nor type specifications.
\<close>

definition InterfaceGen_Visit :: "printer \<Rightarrow> RPCGen \<Rightarrow> expr \<Rightarrow> error + RPCGen" where
  "InterfaceGen_Visit pr r node =
     (case node of
        InterfaceType ms \<Rightarrow> VisitMethodList pr r ms
      | _ \<Rightarrow> Inr r)"

fun RPCGen_Visit :: "printer \<Rightarrow> RPCGen \<Rightarrow> spec \<Rightarrow> error + RPCGen" where
  "RPCGen_Visit pr r (Import n) = Inr (r\<lparr>CheckImports := CheckImports r @ [n]\<rparr>)"
| "RPCGen_Visit pr r (TypeSpec name ty) =
     (if name = gen_Type r then InterfaceGen_Visit pr r ty else Inr r)"
| "RPCGen_Visit pr r ValueSpec = Inr r"

fun walkSpecs :: "printer \<Rightarrow> RPCGen \<Rightarrow> spec list \<Rightarrow> error + RPCGen" where
  "walkSpecs pr r [] = Inr r"
| "walkSpecs pr r (s # ss) =
     (case RPCGen_Visit pr r s of
        Inl e \<Rightarrow> Inl e
      | Inr r' \<Rightarrow> walkSpecs pr r' ss)"

fun declSpecs :: "decl \<Rightarrow> spec list" where
  "declSpecs (GenDecl ss) = ss"
| "declSpecs (FuncDecl name ss) = ss"
| "declSpecs BadDecl = []"

fun walkDecls :: "printer \<Rightarrow> RPCGen \<Rightarrow> decl list \<Rightarrow> error + RPCGen" where
  "walkDecls pr r [] = Inr r"
| "walkDecls pr r (d # ds) =
     (case walkSpecs pr r (declSpecs d) of
        Inl e \<Rightarrow> Inl e
      | Inr r' \<Rightarrow> walkDecls pr r' ds)"

definition Walk :: "printer \<Rightarrow> RPCGen \<Rightarrow> File \<Rightarrow> error + RPCGen" where
  "Walk pr gen f = walkDecls pr gen (Decls f)"

section \<open>Rendering: \<^verbatim>\<open>FieldList\<close> and \<^verbatim>\<open>rpcTemplate\<close>\<close>

definition nl :: string where "nl = [CHR 0x0A]"
definition tab :: string where "tab = [CHR 0x09]"
definition dq :: string where "dq = [CHR 0x22]"

definition FieldList :: "Type list \<Rightarrow> string \<Rightarrow> string \<Rightarrow> bool \<Rightarrow> bool \<Rightarrow> string" where
  "FieldList fs prefix delim withTypes public =
     strings_Join
       (map (\<lambda>p. let suffix = (if withTypes then '' '' @ Type p else []);
                     names = (if public then Names p else LowerNames p)
                 in strings_Join (map (\<lambda>n. prefix @ n) names) '', '' @ suffix)
            fs)
       delim"

definition publicfields :: "Type list \<Rightarrow> string" where
  "publicfields fs = FieldList fs [] (nl @ tab) True True"

definition refswithprefix :: "string \<Rightarrow> Type list \<Rightarrow> string" where
  "refswithprefix prefix fs = FieldList fs prefix '', '' False False"

definition publicrefswithprefix :: "string \<Rightarrow> Type list \<Rightarrow> string" where
  "publicrefswithprefix prefix fs = FieldList fs prefix '', '' False True"

definition functionargs :: "Type list \<Rightarrow> string" where
  "functionargs fs = FieldList fs [] '', '' True False"

text \<open>
  The template engine ranges over a map in the order of its sorted keys and over a
  slice in its own order; \<^verbatim>\<open>{{if .Results}}\<close> holds for a non-empty slice.
\<close>

definition importKeys :: "(string, bool) mapping \<Rightarrow> string list" where
  "importKeys im = Mapping.ordered_keys im"

definition importBlock :: "RPCGen \<Rightarrow> string" where
  "importBlock g =
     ''import ('' @ nl @
     concat (map (\<lambda>key. ''  '' @ dq @ key @ dq @ nl) (importKeys (Imports g))) @
     '')'' @ nl"

definition servicePreamble :: "RPCGen \<Rightarrow> string" where
  "servicePreamble g =
     ''// Generated by go-rpcgen. Do not modify.'' @ nl @
     nl @
     ''package '' @ Package g @ nl @
     nl @
     importBlock g @
     nl @
     ''type '' @ gen_Type g @ ''Service struct {'' @ nl @
     tab @ ''impl '' @ gen_Type g @ nl @
     ''}'' @ nl @
     nl @
     ''func New'' @ gen_Type g @ ''Service(impl '' @ gen_Type g @ '') *'' @ gen_Type g @ ''Service {'' @ nl @
     tab @ ''return &'' @ gen_Type g @ ''Service{impl}'' @ nl @
     ''}'' @ nl @
     nl @
     ''func Register'' @ gen_Type g @ ''Service(server *rpc.Server, impl '' @ gen_Type g @ '') error {'' @ nl @
     tab @ ''return server.RegisterName('' @ dq @ Service g @ dq @ '', New'' @ gen_Type g @ ''Service(impl))'' @ nl @
     ''}'' @ nl"

definition requestStruct :: "RPCGen \<Rightarrow> Method \<Rightarrow> string" where
  "requestStruct g m =
     ''type '' @ gen_Type g @ Name m @ ''Request struct {'' @ nl @
     tab @ publicfields (Parameters m) @ nl @
     ''}'' @ nl"

definition responseStruct :: "RPCGen \<Rightarrow> Method \<Rightarrow> string" where
  "responseStruct g m =
     ''type '' @ gen_Type g @ Name m @ ''Response struct {'' @ nl @
     tab @ publicfields (Results m) @ nl @
     ''}'' @ nl"

definition dispatcher :: "RPCGen \<Rightarrow> Method \<Rightarrow> string" where
  "dispatcher g m =
     ''func (s *'' @ gen_Type g @ ''Service) '' @ Name m @ ''(request *'' @ gen_Type g @ Name m @
       ''Request, response *'' @ gen_Type g @ Name m @ ''Response) (err error) {'' @ nl @
     tab @ publicrefswithprefix ''response.'' (Results m) @ (if Results m \<noteq> [] then '', '' else []) @
       ''err = s.impl.'' @ Name m @ ''('' @ publicrefswithprefix ''request.'' (Parameters m) @ '')'' @ nl @
     tab @ ''return'' @ nl @
     ''}'' @ nl"

definition serviceGroup :: "RPCGen \<Rightarrow> Method \<Rightarrow> string" where
  "serviceGroup g m = nl @ requestStruct g m @ nl @ responseStruct g m @ nl @ dispatcher g m"

definition clientPreamble :: "RPCGen \<Rightarrow> string" where
  "clientPreamble g =
     nl @
     ''type '' @ gen_Type g @ ''Client struct {'' @ nl @
     tab @ ''client '' @ RPCType g @ nl @
     ''}'' @ nl @
     nl @
     ''func Dial'' @ gen_Type g @ ''Client(addr string) (*'' @ gen_Type g @ ''Client, error) {'' @ nl @
     tab @ ''client, err := rpc.Dial('' @ dq @ ''tcp'' @ dq @ '', addr)'' @ nl @
     tab @ ''return &'' @ gen_Type g @ ''Client{client}, err'' @ nl @
     ''}'' @ nl @
     nl @
     ''func New'' @ gen_Type g @ ''Client(client '' @ RPCType g @ '') *'' @ gen_Type g @ ''Client {'' @ nl @
     tab @ ''return &'' @ gen_Type g @ ''Client{client}'' @ nl @
     ''}'' @ nl @
     nl @
     ''func (_c *'' @ gen_Type g @ ''Client) Close() error {'' @ nl @
     tab @ ''return _c.client.Close()'' @ nl @
     ''}'' @ nl"

definition clientMethod :: "RPCGen \<Rightarrow> Method \<Rightarrow> string" where
  "clientMethod g m =
     nl @
     ''func (_c *'' @ gen_Type g @ ''Client) '' @ Name m @ ''('' @ functionargs (Parameters m) @ '') ('' @
       functionargs (Results m) @ (if Results m \<noteq> [] then '', '' else []) @ ''err error) {'' @ nl @
     tab @ ''_request := &'' @ gen_Type g @ Name m @ ''Request{'' @ refswithprefix [] (Parameters m) @ ''}'' @ nl @
     tab @ ''_response := &'' @ gen_Type g @ Name m @ ''Response{}'' @ nl @
     tab @ ''err = _c.client.Call('' @ dq @ Service g @ ''.'' @ Name m @ dq @ '', _request, _response)'' @ nl @
     tab @ ''return '' @ publicrefswithprefix ''_response.'' (Results m) @ (if Results m \<noteq> [] then '', '' else []) @
       ''err'' @ nl @
     ''}'' @ nl"

definition render :: "RPCGen \<Rightarrow> string" where
  "render g =
     servicePreamble g @
     concat (map (serviceGroup g) (Methods g)) @
     clientPreamble g @
     concat (map (clientMethod g) (Methods g))"

section \<open>The run: \<^verbatim>\<open>main\<close>\<close>

record flags =
  source :: string
  rpcType :: string
  target :: string
  importsFlag :: string
  packageFlag :: string
  serviceName :: string
  rpcClientTypeFlag :: string

text \<open>
  What the run meets outside the program: the result of \<^verbatim>\<open>parser.ParseFile\<close> on
  the source file (the parser's error or the file), whether \<^verbatim>\<open>os.Create\<close> fails
  and whether \<^verbatim>\<open>go fmt\<close> fails.  The template is a constant that parses, and
  writing to the created file is taken to succeed.
\<close>

record env =
  parseFile :: "string + File"
  createErr :: "string option"
  fmtErr :: "string option"

text \<open>
  The end of a run: the file created, if any, with the text the template wrote to it
  (before \<^verbatim>\<open>go fmt\<close> reformats it), and the fatal error, if any.
\<close>

record outcome =
  created :: "(string \<times> string) option"
  failure :: "error option"

definition defaultTarget :: "string \<Rightarrow> string" where
  "defaultTarget src = strings_Join (butlast (strings_Split src CHR ''.'')) ''.'' @ ''rpc.go''"

definition configImports :: "string \<Rightarrow> (string, bool) mapping" where
  "configImports fl =
     (if fl \<noteq> [] then fold (\<lambda>imp im. Mapping.update imp True im) (strings_Split fl CHR '','') Mapping.empty
      else Mapping.empty)"

definition initialGen :: "flags \<Rightarrow> File \<Rightarrow> RPCGen" where
  "initialGen fl f =
     \<lparr>Service = (if serviceName fl = [] then rpcType fl else serviceName fl),
      gen_Type = rpcType fl,
      Package = (if packageFlag fl = [] then file_Name f else packageFlag fl),
      Methods = [],
      Imports = configImports (importsFlag fl),
      RPCType = rpcClientTypeFlag fl,
      CheckImports = []\<rparr>"

definition main :: "printer \<Rightarrow> flags \<Rightarrow> env \<Rightarrow> outcome" where
  "main pr fl ev =
     (if source fl = [] \<or> rpcType fl = []
      then \<lparr>created = None, failure = Some (Fatalf ''expected --source and --type'')\<rparr>
      else
        (let tgt = (if target fl = [] then defaultTarget (source fl) else target fl) in
         case parseFile ev of
           Inl err \<Rightarrow>
             \<lparr>created = None,
              failure = Some (Fatalf (''failed to parse '' @ source fl @ '': '' @ err))\<rparr>
         | Inr f \<Rightarrow>
            (case Walk pr (initialGen fl f) f of
               Inl e \<Rightarrow> \<lparr>created = None, failure = Some e\<rparr>
             | Inr gen \<Rightarrow>
                (case createErr ev of
                   Some err \<Rightarrow>
                     \<lparr>created = None,
                      failure = Some (Fatalf (''failed to create output file '' @ tgt @ '': '' @ err))\<rparr>
                 | None \<Rightarrow>
                    (case fmtErr ev of
                       Some err \<Rightarrow>
                         \<lparr>created = Some (tgt, render gen),
                          failure = Some (Fatalf (''failed to run go fmt on '' @ tgt @ '': '' @ err))\<rparr>
                     | None \<Rightarrow> \<lparr>created = Some (tgt, render gen), failure = None\<rparr>)))))"

section \<open>Notions used to state the properties\<close>

text \<open>
  An expression built only from identifiers, pointer markers, qualified selectors, map
  types and array or slice types.  The length of an array type is not part of what
  \<^verbatim>\<open>types\<close> traverses.
\<close>

fun supported :: "expr \<Rightarrow> bool" where
  "supported (Ident n) = True"
| "supported (StarExpr x) = supported x"
| "supported (SelectorExpr x sel) = supported x"
| "supported (MapType k v) = (supported k \<and> supported v)"
| "supported (ArrayType len elt) = supported elt"
| "supported t = False"

text \<open>An entry of a method list whose type is a function signature.\<close>

definition isFuncType :: "field \<Rightarrow> bool" where
  "isFuncType m = (case field_Type m of FuncType ps rs \<Rightarrow> True | _ \<Rightarrow> False)"

fun funcParams :: "field \<Rightarrow> field list" where
  "funcParams (Field p ns (FuncType ps rs)) = ps"
| "funcParams m = []"

fun funcResults :: "field \<Rightarrow> field list" where
  "funcResults (Field p ns (FuncType ps (Some rs))) = rs"
| "funcResults m = []"

text \<open>A result whose formatted type signature is the text \<^verbatim>\<open>error\<close>.\<close>

definition isError :: "printer \<Rightarrow> field \<Rightarrow> bool" where
  "isError pr v = (pr (field_Type v) = ''error'')"

text \<open>
  A field that \<^verbatim>\<open>formatType\<close> can format: it binds at least one identifier, no
  identifier is the empty string, and its type has a supported shape.
\<close>

definition namedField :: "field \<Rightarrow> bool" where
  "namedField v = (field_Names v \<noteq> [] \<and> [] \<notin> set (field_Names v) \<and> supported (field_Type v))"

text \<open>Every recorded import has a path literal with its two quotes.\<close>

definition quotedPaths :: "ImportSpec list \<Rightarrow> bool" where
  "quotedPaths cis = (\<forall>imp\<in>set cis. 2 \<le> length (imp_Path_Value imp))"

text \<open>The public name of an identifier and the Type record expected for a field.\<close>

definition publicName :: "string \<Rightarrow> string" where
  "publicName n = (case n of [] \<Rightarrow> [] | c # cs \<Rightarrow> ToUpper_byte c @ cs)"

definition typeOf :: "printer \<Rightarrow> field \<Rightarrow> Type" where
  "typeOf pr fld =
     \<lparr>Names = map publicName (field_Names fld), LowerNames = field_Names fld,
      Type = pr (field_Type fld)\<rparr>"

text \<open>
  The Method record expected for a function-typed entry: its first name, its parameters
  in order, and its results in order without those of type \<^verbatim>\<open>error\<close>.
\<close>

definition methodOf :: "printer \<Rightarrow> field \<Rightarrow> Method" where
  "methodOf pr m =
     \<lparr>Name = (case field_Names m of [] \<Rightarrow> [] | name # _ \<Rightarrow> name),
      Parameters = map (typeOf pr) (funcParams m),
      Results = map (typeOf pr) (filter (\<lambda>v. \<not> isError pr v) (funcResults m))\<rparr>"

text \<open>What a function-typed entry must satisfy for \<^verbatim>\<open>VisitMethodList\<close> to get past it.\<close>

definition entryOK :: "printer \<Rightarrow> field \<Rightarrow> bool" where
  "entryOK pr m =
     (field_Names m \<noteq> [] \<and> (\<forall>v\<in>set (funcParams m). namedField v) \<and>
      (\<forall>v\<in>set (funcResults m). namedField v) \<and> (\<exists>v\<in>set (funcResults m). isError pr v))"


text \<open>The import specifications and the names of the type specifications among them.\<close>

fun importSpecs :: "spec list \<Rightarrow> ImportSpec list" where
  "importSpecs [] = []"
| "importSpecs (Import n # ss) = n # importSpecs ss"
| "importSpecs (s # ss) = importSpecs ss"

fun typeNames :: "spec list \<Rightarrow> string list" where
  "typeNames [] = []"
| "typeNames (TypeSpec name ty # ss) = name # typeNames ss"
| "typeNames (s # ss) = typeNames ss"




text \<open>
  A result list in which exactly one declared result has the type \<^verbatim>\<open>error\<close> and
  that result is the last one.
\<close>

definition errorLastOnly :: "printer \<Rightarrow> field list \<Rightarrow> bool" where
  "errorLastOnly pr rs =
     (rs \<noteq> [] \<and> isError pr (last rs) \<and> length (field_Names (last rs)) \<le> 1 \<and>
      filter (isError pr) (butlast rs) = [])"

text \<open>
  An identifier with its first character upper-cased by the rule of ASCII and the
  remainder unchanged.
\<close>

definition asciiUpper :: "char \<Rightarrow> char" where
  "asciiUpper c =
     (if 97 \<le> (of_char c :: nat) \<and> (of_char c :: nat) \<le> 122 then char_of ((of_char c :: nat) - 32)
      else c)"

definition upperFirst :: "string \<Rightarrow> string" where
  "upperFirst n = (case n of [] \<Rightarrow> [] | c # cs \<Rightarrow> asciiUpper c # cs)"

subsection \<open>A printer and a source file for the examples\<close>

text \<open>
  The text \<^verbatim>\<open>go/printer\<close> gives for identifiers, pointers, selectors, maps,
  arrays, channels, parentheses, ellipses and literals; signatures, structs and
  interfaces are laid out on one line.
\<close>

fun printExpr :: "expr \<Rightarrow> string"
  and printField :: "field \<Rightarrow> string"
  and printFields :: "string \<Rightarrow> field list \<Rightarrow> string" where
  "printExpr (Ident n) = n"
| "printExpr (StarExpr x) = ''*'' @ printExpr x"
| "printExpr (SelectorExpr x sel) = printExpr x @ ''.'' @ sel"
| "printExpr (MapType k v) = ''map['' @ printExpr k @ '']'' @ printExpr v"
| "printExpr (ArrayType None elt) = ''[]'' @ printExpr elt"
| "printExpr (ArrayType (Some len) elt) = ''['' @ printExpr len @ '']'' @ printExpr elt"
| "printExpr (FuncType ps None) = ''func('' @ printFields '', '' ps @ '')''"
| "printExpr (FuncType ps (Some [Field p [] t])) =
     ''func('' @ printFields '', '' ps @ '') '' @ printExpr t"
| "printExpr (FuncType ps (Some rs)) =
     ''func('' @ printFields '', '' ps @ '') ('' @ printFields '', '' rs @ '')''"
| "printExpr (ChanType x) = ''chan '' @ printExpr x"
| "printExpr (StructType fs) = ''struct{'' @ printFields ''; '' fs @ ''}''"
| "printExpr (InterfaceType fs) = ''interface{'' @ printFields ''; '' fs @ ''}''"
| "printExpr (Ellipsis x) = ''...'' @ printExpr x"
| "printExpr (ParenExpr x) = ''('' @ printExpr x @ '')''"
| "printExpr (BasicLit v) = v"
| "printField (Field p ns t) =
     (if ns = [] then printExpr t else strings_Join ns '', '' @ '' '' @ printExpr t)"
| "printFields sep [] = []"
| "printFields sep [f] = printField f"
| "printFields sep (f # g # fs) = printField f @ sep @ printFields sep (g # fs)"

text \<open>
  \<^verbatim>\<open>Add(a, b int) (result int, err error)\<close>, the method of the interface
  \<^verbatim>\<open>Arith\<close> at the head of \<^verbatim>\<open>src/example/arith.go\<close>, and the flags of the
  README's command line.
\<close>

definition Add :: field where
  "Add = Field 30 [''Add'']
           (FuncType [Field 34 [''a'', ''b''] (Ident ''int'')]
                     (Some [Field 45 [''result''] (Ident ''int''),
                            Field 57 [''err''] (Ident ''error'')]))"

definition interface_go :: "field list \<Rightarrow> File" where
  "interface_go ms =
     \<lparr>file_Name = ''arith'', Decls = [GenDecl [TypeSpec ''Arith'' (InterfaceType ms)]]\<rparr>"

definition arith_go :: File where
  "arith_go = interface_go [Add]"

definition arith_flags :: flags where
  "arith_flags =
     \<lparr>source = ''arith.go'', rpcType = ''Arith'', target = [], importsFlag = ''net/rpc'',
      packageFlag = [], serviceName = [], rpcClientTypeFlag = ''*rpc.Client''\<rparr>"

definition arith_gen :: RPCGen where
  "arith_gen = initialGen arith_flags arith_go"

text \<open>A run in which the parser returns the file and nothing outside the program fails.\<close>

definition parsed :: "File \<Rightarrow> env" where
  "parsed f = \<lparr>parseFile = Inr f, createErr = None, fmtErr = None\<rparr>"

text \<open>
  \<^verbatim>\<open>Div(a, b int) (int, error)\<close>, \<^verbatim>\<open>Foo(a int) int\<close>,
  \<^verbatim>\<open>Get() (err error, n int)\<close> and the embedded interface \<^verbatim>\<open>io.Reader\<close>.
\<close>

definition Div :: field where
  "Div = Field 30 [''Div'']
           (FuncType [Field 34 [''a'', ''b''] (Ident ''int'')]
                     (Some [Field 45 [] (Ident ''int''), Field 50 [] (Ident ''error'')]))"

definition Foo :: field where
  "Foo = Field 30 [''Foo'']
           (FuncType [Field 34 [''a''] (Ident ''int'')] (Some [Field 41 [] (Ident ''int'')]))"

definition Get :: field where
  "Get = Field 30 [''Get'']
           (FuncType [] (Some [Field 37 [''err''] (Ident ''error''), Field 48 [''n''] (Ident ''int'')]))"

definition embedded_Reader :: field where
  "embedded_Reader = Field 30 [] (SelectorExpr (Ident ''io'') ''Reader'')"

text \<open>
  \<^verbatim>\<open>Mul(x int, y int) (product int, err error)\<close>; a generator that has recorded the
  imports \<^verbatim>\<open>t "time"\<close> and \<^verbatim>\<open>"time"\<close>; the parameter
  \<^verbatim>\<open>d map[string]*t.Duration\<close>; and a file that imports \<^verbatim>\<open>"time"\<close> and
  whose interface has two methods with a parameter of type \<^verbatim>\<open>time.Duration\<close>.
\<close>

definition Mul :: field where
  "Mul = Field 70 [''Mul'']
           (FuncType [Field 74 [''x''] (Ident ''int''), Field 81 [''y''] (Ident ''int'')]
                     (Some [Field 89 [''product''] (Ident ''int''),
                            Field 102 [''err''] (Ident ''error'')]))"

definition time_gen :: RPCGen where
  "time_gen =
     arith_gen\<lparr>CheckImports :=
       [\<lparr>imp_Name = Some ''t'', imp_Path_Value = dq @ ''time'' @ dq\<rparr>,
        \<lparr>imp_Name = None, imp_Path_Value = dq @ ''time'' @ dq\<rparr>]\<rparr>"

definition d_field :: field where
  "d_field = Field 40 [''d'']
     (MapType (Ident ''string'') (StarExpr (SelectorExpr (Ident ''t'') ''Duration'')))"

definition Sleep :: field where
  "Sleep = Field 50 [''Sleep'']
             (FuncType [Field 56 [''d''] (SelectorExpr (Ident ''time'') ''Duration'')]
                       (Some [Field 74 [''err''] (Ident ''error'')]))"

definition Wait :: field where
  "Wait = Field 90 [''Wait'']
            (FuncType [Field 95 [''d''] (SelectorExpr (Ident ''time'') ''Duration'')]
                      (Some [Field 113 [''err''] (Ident ''error'')]))"

definition timer_go :: File where
  "timer_go =
     \<lparr>file_Name = ''timer'',
      Decls = [GenDecl [Import \<lparr>imp_Name = None, imp_Path_Value = dq @ ''time'' @ dq\<rparr>],
               GenDecl [TypeSpec ''Timer'' (InterfaceType [Sleep, Wait])]]\<rparr>"

definition timer_flags :: flags where
  "timer_flags =
     \<lparr>source = ''timer.go'', rpcType = ''Timer'', target = [],
      importsFlag = ''net/rpc,net/rpc'', packageFlag = [], serviceName = [],
      rpcClientTypeFlag = ''*rpc.Client''\<rparr>"

section \<open>Lemmas about the extraction\<close>

lemma types_supported: "supported e \<Longrightarrow> \<exists>ns. types e = Inr ns"
  by (induction e rule: types.induct) auto

lemma types_error: "types e = Inl err \<Longrightarrow> \<exists>t. err = UnknownExpressionNode t"
  by (induction e arbitrary: err rule: types.induct) (auto split: sum.splits)

lemma types_fails: "\<not> supported e \<Longrightarrow> \<exists>err. types e = Inl err"
  by (induction e rule: types.induct) (auto split: sum.splits)

lemma types_unsupported: "\<not> supported e \<Longrightarrow> \<exists>t. types e = Inl (UnknownExpressionNode t)"
  using types_fails types_error by blast

lemma VisitMethodList_filter:
  "VisitMethodList pr r ms = VisitMethodList pr r (filter isFuncType ms)"
proof (induction ms arbitrary: r)
  case Nil
  show ?case by simp
next
  case (Cons m ms)
  show ?case
  proof (cases "field_Type m")
    case (FuncType ps rs)
    then show ?thesis using Cons.IH by (simp add: isFuncType_def split: sum.splits)
  qed (use Cons.IH in \<open>simp_all add: isFuncType_def\<close>)
qed

lemma VisitMethodList_no_func:
  "\<forall>m\<in>set ms. \<not> isFuncType m \<Longrightarrow> VisitMethodList pr r ms = Inr r"
proof -
  assume "\<forall>m\<in>set ms. \<not> isFuncType m"
  then have "filter isFuncType ms = []" by (simp add: filter_empty_conv)
  then show ?thesis using VisitMethodList_filter[of pr r ms] by simp
qed


lemma appendNames_result:
  "appendNames t ns = Inr t' \<Longrightarrow>
   t' = t\<lparr>Names := Names t @ map publicName ns, LowerNames := LowerNames t @ ns\<rparr> \<and> [] \<notin> set ns"
proof (induction ns arbitrary: t)
  case Nil
  then show ?case by simp
next
  case (Cons n ns)
  then obtain c cs where n: "n = c # cs" by (cases n) auto
  from Cons.prems n have
    "appendNames (t\<lparr>Names := Names t @ [ToUpper_byte c @ cs], LowerNames := LowerNames t @ [n]\<rparr>) ns = Inr t'"
    by simp
  from Cons.IH[OF this] n show ?case by (simp add: publicName_def)
qed

lemma appendNames_ok:
  "[] \<notin> set ns \<Longrightarrow> \<exists>t'. appendNames t ns = Inr t'"
proof (induction ns arbitrary: t)
  case Nil
  then show ?case by simp
next
  case (Cons n ns)
  then obtain c cs where n: "n = c # cs" by (cases n) auto
  with Cons show ?case by simp
qed

lemma formatType_result:
  assumes "formatType pr r fld = Inr (t, r')"
  shows "t = typeOf pr fld \<and> field_Names fld \<noteq> [] \<and> [] \<notin> set (field_Names fld) \<and>
         r' = r\<lparr>Imports := Imports r'\<rparr> \<and> supported (field_Type fld)"
proof -
  from assms have nn: "field_Names fld \<noteq> []"
    by (auto simp: formatType_def split: if_splits)
  from assms nn obtain tns where tns: "types (field_Type fld) = Inr tns"
    by (auto simp: formatType_def split: sum.splits)
  from assms nn tns obtain im where im: "registerImports (Imports r) (CheckImports r) tns = Inr im"
    by (auto simp: formatType_def split: sum.splits)
  from assms nn tns im have
    an: "appendNames \<lparr>Names = [], LowerNames = [], Type = pr (field_Type fld)\<rparr> (field_Names fld) = Inr t"
    and r': "r' = r\<lparr>Imports := im\<rparr>"
    by (auto simp: formatType_def split: sum.splits)
  have sup: "supported (field_Type fld)"
    using tns types_unsupported[of "field_Type fld"] by auto
  from appendNames_result[OF an] nn r' sup show ?thesis
    by (simp add: typeOf_def)
qed

lemma typeOf_Type [simp]: "Type (typeOf pr v) = pr (field_Type v)"
  by (simp add: typeOf_def)

lemma gen_self: "\<exists>im. (r::RPCGen) = r\<lparr>Imports := im\<rparr>"
  by (rule exI[of _ "Imports r"]) simp

lemma formatParams_result:
  "formatParams pr r mth vs = Inr (m', r') \<Longrightarrow>
   m' = mth\<lparr>Parameters := Parameters mth @ map (typeOf pr) vs\<rparr> \<and>
   (\<exists>im. r' = r\<lparr>Imports := im\<rparr>) \<and> (\<forall>v\<in>set vs. namedField v)"
proof (induction vs arbitrary: r mth)
  case Nil
  then show ?case using gen_self[of r] by auto
next
  case (Cons v vs)
  from Cons.prems obtain t r1 where ft: "formatType pr r v = Inr (t, r1)"
    by (auto split: sum.splits)
  with Cons.prems have
    rest: "formatParams pr r1 (mth\<lparr>Parameters := Parameters mth @ [t]\<rparr>) vs = Inr (m', r')"
    by simp
  note a = formatType_result[OF ft] and b = Cons.IH[OF rest]
  from a obtain im1 where r1: "r1 = r\<lparr>Imports := im1\<rparr>" by blast
  from b obtain im2 where "r' = r1\<lparr>Imports := im2\<rparr>" by blast
  with r1 have "r' = r\<lparr>Imports := im2\<rparr>" by simp
  then show ?case using a b by (auto simp: namedField_def)
qed

lemma formatResults_result:
  "formatResults pr r mth h vs = Inr (m', h', r') \<Longrightarrow>
   m' = mth\<lparr>Results := Results mth @ map (typeOf pr) (filter (\<lambda>v. \<not> isError pr v) vs)\<rparr> \<and>
   h' = (h \<or> (\<exists>v\<in>set vs. isError pr v)) \<and>
   (\<exists>im. r' = r\<lparr>Imports := im\<rparr>) \<and> (\<forall>v\<in>set vs. namedField v)"
proof (induction vs arbitrary: r mth h)
  case Nil
  then show ?case using gen_self[of r] by auto
next
  case (Cons v vs)
  from Cons.prems obtain t r1 where ft: "formatType pr r v = Inr (t, r1)"
    by (auto split: sum.splits)
  note a = formatType_result[OF ft]
  from a obtain im1 where r1: "r1 = r\<lparr>Imports := im1\<rparr>" by blast
  show ?case
  proof (cases "isError pr v")
    case True
    with Cons.prems ft a have rest: "formatResults pr r1 mth True vs = Inr (m', h', r')"
      by (simp add: isError_def)
    note b = Cons.IH[OF rest]
    from b obtain im2 where "r' = r1\<lparr>Imports := im2\<rparr>" by blast
    with r1 have "r' = r\<lparr>Imports := im2\<rparr>" by simp
    then show ?thesis using a b True by (auto simp: namedField_def)
  next
    case False
    with Cons.prems ft a have
      rest: "formatResults pr r1 (mth\<lparr>Results := Results mth @ [t]\<rparr>) h vs = Inr (m', h', r')"
      by (simp add: isError_def)
    note b = Cons.IH[OF rest]
    from b obtain im2 where "r' = r1\<lparr>Imports := im2\<rparr>" by blast
    with r1 have "r' = r\<lparr>Imports := im2\<rparr>" by simp
    then show ?thesis using a b False by (auto simp: namedField_def)
  qed
qed

lemma visitMethod_result:
  assumes "visitMethod pr r m ps rs = Inr r'" and ty: "field_Type m = FuncType ps rs"
  shows "(\<exists>im. r' = r\<lparr>Methods := Methods r @ [methodOf pr m], Imports := im\<rparr>) \<and> entryOK pr m"
proof -
  obtain p ns where m: "m = Field p ns (FuncType ps rs)" using ty by (cases m) auto
  from assms obtain name rest where ns: "ns = name # rest"
    by (cases ns) (auto simp: visitMethod_def m)
  let ?m0 = "\<lparr>Name = name, Parameters = [], Results = []\<rparr>"
  from assms ns m obtain m1 r1 where fp: "formatParams pr r ?m0 ps = Inr (m1, r1)"
    by (auto simp: visitMethod_def split: sum.splits)
  note a = formatParams_result[OF fp]
  from a obtain im1 where r1: "r1 = r\<lparr>Imports := im1\<rparr>" by blast
  show ?thesis
  proof (cases rs)
    case None
    with assms ns m fp show ?thesis by (simp add: visitMethod_def)
  next
    case (Some l)
    with assms ns m fp obtain m2 h r2 where fr: "formatResults pr r1 m1 False l = Inr (m2, h, r2)"
      by (auto simp: visitMethod_def split: sum.splits)
    note b = formatResults_result[OF fr]
    from assms ns m fp Some fr have h: "h" and r': "r' = r2\<lparr>Methods := Methods r2 @ [m2]\<rparr>"
      by (auto simp: visitMethod_def split: if_splits)
    from b obtain im2 where "r2 = r1\<lparr>Imports := im2\<rparr>" by blast
    with r1 have r2: "r2 = r\<lparr>Imports := im2\<rparr>" by simp
    have m2: "m2 = methodOf pr m"
      using a b by (simp add: methodOf_def m ns Some)
    have "r' = r\<lparr>Methods := Methods r @ [methodOf pr m], Imports := im2\<rparr>"
      using r' m2 r2 by simp
    moreover have "entryOK pr m"
      using a b h by (simp add: entryOK_def m ns Some)
    ultimately show ?thesis by blast
  qed
qed

lemma VisitMethodList_result:
  "VisitMethodList pr r ms = Inr r' \<Longrightarrow>
   (\<exists>im. r' = r\<lparr>Methods := Methods r @ map (methodOf pr) (filter isFuncType ms), Imports := im\<rparr>) \<and>
   (\<forall>m\<in>set ms. isFuncType m \<longrightarrow> entryOK pr m)"
proof (induction ms arbitrary: r)
  case Nil
  then have "r' = r\<lparr>Methods := Methods r @ [], Imports := Imports r\<rparr>" by simp
  then have "\<exists>im. r' = r\<lparr>Methods := Methods r @ map (methodOf pr) (filter isFuncType []), Imports := im\<rparr>"
    by (intro exI[of _ "Imports r"]) simp
  then show ?case by simp
next
  case (Cons m ms)
  show ?case
  proof (cases "isFuncType m")
    case False
    then have "VisitMethodList pr r (m # ms) = VisitMethodList pr r ms"
      by (cases "field_Type m") (simp_all add: isFuncType_def)
    with Cons False show ?thesis by simp
  next
    case True
    then obtain ps rs where ty: "field_Type m = FuncType ps rs"
      by (cases "field_Type m") (simp_all add: isFuncType_def)
    with Cons.prems obtain r1 where vm: "visitMethod pr r m ps rs = Inr r1"
      and rest: "VisitMethodList pr r1 ms = Inr r'"
      by (auto split: sum.splits)
    note a = visitMethod_result[OF vm ty] and b = Cons.IH[OF rest]
    from a obtain im1 where r1: "r1 = r\<lparr>Methods := Methods r @ [methodOf pr m], Imports := im1\<rparr>"
      by blast
    from b obtain im2 where
      "r' = r1\<lparr>Methods := Methods r1 @ map (methodOf pr) (filter isFuncType ms), Imports := im2\<rparr>"
      by blast
    with r1 True have
      "r' = r\<lparr>Methods := Methods r @ map (methodOf pr) (filter isFuncType (m # ms)), Imports := im2\<rparr>"
      by simp
    then have "\<exists>im. r' = r\<lparr>Methods := Methods r @ map (methodOf pr) (filter isFuncType (m # ms)), Imports := im\<rparr>"
      by (rule exI)
    moreover have "\<forall>x\<in>set (m # ms). isFuncType x \<longrightarrow> entryOK pr x"
      using a b by simp
    ultimately show ?thesis by (rule conjI)
  qed
qed

lemma VisitMethodList_bad_entry:
  assumes "m \<in> set ms" and "isFuncType m" and "\<not> entryOK pr m"
  shows "\<exists>e. VisitMethodList pr r ms = Inl e"
proof (cases "VisitMethodList pr r ms")
  case (Inl e)
  then show ?thesis by blast
next
  case (Inr r')
  from VisitMethodList_result[OF Inr] assms show ?thesis by blast
qed

lemma checkImports_error:
  "checkImports im q cis = Inl e \<Longrightarrow> \<not> quotedPaths cis"
  by (induction im q cis rule: checkImports.induct)
     (auto simp: quotedPaths_def Let_def split: if_splits)

lemma registerImports_error:
  "registerImports im cis tns = Inl e \<Longrightarrow> \<not> quotedPaths cis"
  by (induction im cis tns rule: registerImports.induct)
     (auto simp: Let_def dest: checkImports_error split: if_splits sum.splits)

lemma formatType_ok:
  assumes "namedField v" and "quotedPaths (CheckImports r)"
  shows "\<exists>t r'. formatType pr r v = Inr (t, r')"
proof -
  from assms(1) obtain tns where tns: "types (field_Type v) = Inr tns"
    using types_supported by (auto simp: namedField_def)
  obtain im where im: "registerImports (Imports r) (CheckImports r) tns = Inr im"
    using registerImports_error[of "Imports r" "CheckImports r" tns] assms(2)
    by (cases "registerImports (Imports r) (CheckImports r) tns") auto
  from assms(1) obtain t where
    "appendNames \<lparr>Names = [], LowerNames = [], Type = pr (field_Type v)\<rparr> (field_Names v) = Inr t"
    using appendNames_ok by (auto simp: namedField_def)
  with tns im assms(1) show ?thesis by (simp add: formatType_def namedField_def)
qed

lemma formatType_CheckImports:
  "formatType pr r v = Inr (t, r') \<Longrightarrow> CheckImports r' = CheckImports r"
proof -
  assume "formatType pr r v = Inr (t, r')"
  from formatType_result[OF this] obtain im where "r' = r\<lparr>Imports := im\<rparr>" by blast
  then show ?thesis by simp
qed

lemma formatParams_ok:
  "\<forall>v\<in>set vs. namedField v \<Longrightarrow> quotedPaths (CheckImports r) \<Longrightarrow>
   \<exists>m' r'. formatParams pr r mth vs = Inr (m', r')"
proof (induction vs arbitrary: r mth)
  case Nil
  then show ?case by simp
next
  case (Cons v vs)
  from Cons.prems obtain t r1 where ft: "formatType pr r v = Inr (t, r1)"
    using formatType_ok[of v r pr] by auto
  from formatType_CheckImports[OF ft] Cons.prems have "quotedPaths (CheckImports r1)" by simp
  with Cons.IH[of r1] Cons.prems ft show ?case by simp
qed

lemma formatResults_ok:
  "\<forall>v\<in>set vs. namedField v \<Longrightarrow> quotedPaths (CheckImports r) \<Longrightarrow>
   \<exists>m' h' r'. formatResults pr r mth h vs = Inr (m', h', r')"
proof (induction vs arbitrary: r mth h)
  case Nil
  then show ?case by simp
next
  case (Cons v vs)
  from Cons.prems obtain t r1 where ft: "formatType pr r v = Inr (t, r1)"
    using formatType_ok[of v r pr] by auto
  from formatType_CheckImports[OF ft] Cons.prems have "quotedPaths (CheckImports r1)" by simp
  with Cons.IH[of r1] Cons.prems ft show ?case by simp
qed

lemma formatParams_CheckImports:
  "formatParams pr r mth vs = Inr (m', r') \<Longrightarrow> CheckImports r' = CheckImports r"
proof -
  assume "formatParams pr r mth vs = Inr (m', r')"
  from formatParams_result[OF this] obtain im where "r' = r\<lparr>Imports := im\<rparr>" by blast
  then show ?thesis by simp
qed

text \<open>The outcome of one entry, in full.\<close>

lemma visitMethod_outcome:
  assumes ty: "field_Type m = FuncType ps rs"
    and names: "field_Names m = name # others"
    and ps: "\<forall>v\<in>set (funcParams m). namedField v"
    and rs: "\<forall>v\<in>set (funcResults m). namedField v"
    and q: "quotedPaths (CheckImports r)"
  shows "if \<exists>v\<in>set (funcResults m). isError pr v
         then \<exists>im. visitMethod pr r m ps rs =
                 Inr (r\<lparr>Methods := Methods r @ [methodOf pr m], Imports := im\<rparr>)
         else visitMethod pr r m ps rs = Inl (FatalNode (field_Pos m) (missingError name))"
proof -
  obtain p ns where m: "m = Field p ns (FuncType ps rs)" using ty by (cases m) auto
  let ?m0 = "\<lparr>Name = name, Parameters = [], Results = []\<rparr>"
  from ps m obtain m1 r1 where fp: "formatParams pr r ?m0 ps = Inr (m1, r1)"
    using formatParams_ok[of ps r pr ?m0] q by auto
  note a = formatParams_result[OF fp]
  have q1: "quotedPaths (CheckImports r1)" using formatParams_CheckImports[OF fp] q by simp
  have n1: "Name m1 = name" using a by simp
  show ?thesis
  proof (cases rs)
    case None
    with m names fp n1 show ?thesis by (simp add: visitMethod_def)
  next
    case (Some l)
    with rs m obtain m2 h r2 where fr: "formatResults pr r1 m1 False l = Inr (m2, h, r2)"
      using formatResults_ok[of l r1 pr m1 False] q1 by auto
    note b = formatResults_result[OF fr]
    have n2: "Name m2 = name" using b n1 by simp
    have h: "h = (\<exists>v\<in>set (funcResults m). isError pr v)" using b m Some by simp
    show ?thesis
    proof (cases h)
      case False
      with h m names fp Some fr n2 show ?thesis by (simp add: visitMethod_def)
    next
      case True
      with m names fp Some fr have vm: "visitMethod pr r m ps rs = Inr (r2\<lparr>Methods := Methods r2 @ [m2]\<rparr>)"
        by (simp add: visitMethod_def)
      from visitMethod_result[OF vm ty] True h show ?thesis by (auto simp: vm)
    qed
  qed
qed

















lemma RPCGen_Visit_gen_Type:
  "RPCGen_Visit pr r s = Inr r' \<Longrightarrow> gen_Type r' = gen_Type r"
proof (cases s)
  case (TypeSpec name ty)
  assume a: "RPCGen_Visit pr r s = Inr r'"
  show ?thesis
  proof (cases ty)
    case (InterfaceType ms)
    show ?thesis
    proof (cases "name = gen_Type r")
      case True
      with a TypeSpec InterfaceType have "VisitMethodList pr r ms = Inr r'"
        by (simp add: InterfaceGen_Visit_def)
      from VisitMethodList_result[OF this] obtain im where
        "r' = r\<lparr>Methods := Methods r @ map (methodOf pr) (filter isFuncType ms), Imports := im\<rparr>"
        by blast
      then show ?thesis by simp
    qed (use a TypeSpec in simp)
  qed (use a TypeSpec in \<open>auto simp: InterfaceGen_Visit_def split: if_splits\<close>)
qed auto

lemma walkSpecs_gen_Type:
  "walkSpecs pr r ss = Inr r' \<Longrightarrow> gen_Type r' = gen_Type r"
  by (induction ss arbitrary: r) (auto dest: RPCGen_Visit_gen_Type split: sum.splits)

lemma walkDecls_gen_Type:
  "walkDecls pr r ds = Inr r' \<Longrightarrow> gen_Type r' = gen_Type r"
  by (induction ds arbitrary: r) (auto dest: walkSpecs_gen_Type split: sum.splits)





lemma main_created:
  "created (main pr fl ev) = Some (tgt, text) \<Longrightarrow>
   \<exists>f g. parseFile ev = Inr f \<and> Walk pr (initialGen fl f) f = Inr g \<and> text = render g"
  by (auto simp: main_def Let_def split: if_splits sum.splits option.splits)


lemma typeNames_append [simp]: "typeNames (xs @ ys) = typeNames xs @ typeNames ys"
  by (induction xs rule: typeNames.induct) auto

lemma importSpecs_append [simp]: "importSpecs (xs @ ys) = importSpecs xs @ importSpecs ys"
  by (induction xs rule: importSpecs.induct) auto


lemmas example_defs = Add_def Div_def Foo_def Get_def Mul_def embedded_Reader_def arith_go_def
  time_gen_def d_field_def Sleep_def Wait_def timer_go_def timer_flags_def
  interface_go_def arith_flags_def arith_gen_def parsed_def initialGen_def configImports_def

lemmas run_defs = visitMethod_def formatType_def strings_SplitN2_def ToUpper_byte_def
  InterfaceGen_Visit_def Walk_def main_def defaultTarget_def missingError_def char_of_def
  bit_iff_odd

lemma VisitMethodList_stops:
  assumes "field_Type m = FuncType ps rs" and "visitMethod pr r m ps rs = Inl e"
  shows "VisitMethodList pr r (m # rest) = Inl e"
  using assms by simp


lemma VisitMethodList_head_fails:
  assumes "isFuncType m" and "\<not> entryOK pr m"
  shows "\<exists>e. VisitMethodList pr r (m # rest) = Inl e \<and> VisitMethodList pr r [m] = Inl e"
proof -
  from assms(1) obtain ps rs where ty: "field_Type m = FuncType ps rs"
    by (cases "field_Type m") (simp_all add: isFuncType_def)
  show ?thesis
  proof (cases "visitMethod pr r m ps rs")
    case (Inl e)
    with ty show ?thesis by simp
  next
    case (Inr r1)
    from visitMethod_result[OF Inr ty] assms(2) show ?thesis by simp
  qed
qed





lemma errorLastOnly_has_error: "errorLastOnly pr rs \<Longrightarrow> \<exists>v\<in>set rs. isError pr v"
  by (auto simp: errorLastOnly_def)

lemma error_not_last_accepted:
  "\<not> errorLastOnly printExpr (funcResults Get) \<and>
   VisitMethodList printExpr arith_gen [Get] =
     Inr (arith_gen\<lparr>Methods := [\<lparr>Name = ''Get'', Parameters = [],
            Results = [\<lparr>Names = [''N''], LowerNames = [''n''], Type = ''int''\<rparr>]\<rparr>]\<rparr>)"
  by (simp add: isError_def errorLastOnly_def example_defs run_defs)





lemma publicName_ascii:
  "n \<noteq> [] \<Longrightarrow> (of_char (hd n) :: nat) < 128 \<Longrightarrow> publicName n = upperFirst n"
  by (cases n) (auto simp: publicName_def upperFirst_def ToUpper_byte_def asciiUpper_def Let_def)




lemma Add_rendered:
  "created (main printExpr arith_flags (parsed arith_go)) =
     Some (''arithrpc.go'',
       servicePreamble arith_gen @
       nl @ ''type ArithAddRequest struct {'' @ nl @ tab @ ''A, B int'' @ nl @ ''}'' @ nl @
       nl @ ''type ArithAddResponse struct {'' @ nl @ tab @ ''Result int'' @ nl @ ''}'' @ nl @
       nl @ ''func (s *ArithService) Add(request *ArithAddRequest, response *ArithAddResponse) (err error) {'' @ nl @
       tab @ ''response.Result, err = s.impl.Add(request.A, request.B)'' @ nl @
       tab @ ''return'' @ nl @ ''}'' @ nl @
       clientPreamble arith_gen @
       nl @ ''func (_c *ArithClient) Add(a, b int) (result int, err error) {'' @ nl @
       tab @ ''_request := &ArithAddRequest{a, b}'' @ nl @
       tab @ ''_response := &ArithAddResponse{}'' @ nl @
       tab @ ''err = _c.client.Call('' @ dq @ ''Arith.Add'' @ dq @ '', _request, _response)'' @ nl @
       tab @ ''return _response.Result, err'' @ nl @ ''}'' @ nl)"
  by (simp add: example_defs run_defs render_def servicePreamble_def clientPreamble_def
      importBlock_def serviceGroup_def clientMethod_def requestStruct_def responseStruct_def
      dispatcher_def publicfields_def refswithprefix_def publicrefswithprefix_def
      functionargs_def FieldList_def)





section \<open>The properties\<close>

text \<open>
  C7.  \<^verbatim>\<open>types\<close> returns a list of names for every expression built only from
  identifiers, pointer markers, qualified selectors, map types and array or slice
  types, and panics with an unknown expression node for every other expression: at
  once when the expression itself is a function, channel, struct or interface type, an
  ellipsis, a parenthesised expression or a literal, and at the first such node
  otherwise.  The panic ends \<^verbatim>\<open>formatType\<close> on a named field of such a type, and
  with it the extraction of every method list that has such a field.
\<close>

theorem types_total:
  "(supported e \<longrightarrow> (\<exists>ns. types e = Inr ns)) \<and>
   (\<not> supported e \<longrightarrow> (\<exists>t. types e = Inl (UnknownExpressionNode t))) \<and>
   types (FuncType ps rs) = Inl (UnknownExpressionNode (FuncType ps rs)) \<and>
   types (ChanType x) = Inl (UnknownExpressionNode (ChanType x)) \<and>
   types (StructType fs) = Inl (UnknownExpressionNode (StructType fs)) \<and>
   types (InterfaceType fs) = Inl (UnknownExpressionNode (InterfaceType fs)) \<and>
   types (Ellipsis x) = Inl (UnknownExpressionNode (Ellipsis x)) \<and>
   types (ParenExpr x) = Inl (UnknownExpressionNode (ParenExpr x)) \<and>
   types (BasicLit v) = Inl (UnknownExpressionNode (BasicLit v)) \<and>
   (field_Names fld \<noteq> [] \<and> \<not> supported (field_Type fld) \<longrightarrow>
      (\<exists>t. formatType pr r fld = Inl (UnknownExpressionNode t)) \<and>
      (m \<in> set ms \<and> isFuncType m \<and> fld \<in> set (funcParams m @ funcResults m) \<longrightarrow>
         (\<exists>err. VisitMethodList pr r ms = Inl err)))"
proof -
  have "\<exists>t. formatType pr r fld = Inl (UnknownExpressionNode t)"
    if "field_Names fld \<noteq> []" "\<not> supported (field_Type fld)"
    using that types_unsupported[of "field_Type fld"] by (auto simp: formatType_def)
  moreover have "\<exists>err. VisitMethodList pr r ms = Inl err"
    if "\<not> supported (field_Type fld)" "m \<in> set ms" "isFuncType m"
       "fld \<in> set (funcParams m @ funcResults m)"
  proof -
    from that(1,4) have "\<not> entryOK pr m" by (auto simp: entryOK_def namedField_def)
    from VisitMethodList_bad_entry[OF that(2,3) this] show ?thesis .
  qed
  ultimately show ?thesis using types_supported types_unsupported by simp
qed

text \<open>
  The type \<^verbatim>\<open>map[string][]*time.Duration\<close> is traversed, the type
  \<^verbatim>\<open>map[string]chan int\<close> is not.
\<close>

theorem types_total_witness:
  "supported (MapType (Ident ''string'') (ArrayType None (StarExpr (SelectorExpr (Ident ''time'') ''Duration'')))) \<and>
   (\<exists>ns. types (MapType (Ident ''string'') (ArrayType None (StarExpr (SelectorExpr (Ident ''time'') ''Duration'')))) = Inr ns) \<and>
   \<not> supported (MapType (Ident ''string'') (ChanType (Ident ''int''))) \<and>
   (\<exists>t. types (MapType (Ident ''string'') (ChanType (Ident ''int''))) = Inl (UnknownExpressionNode t)) \<and>
   formatType printExpr arith_gen (Field 34 [''c''] (MapType (Ident ''string'') (ChanType (Ident ''int'')))) =
     Inl (UnknownExpressionNode (ChanType (Ident ''int'')))"
  using types_total[of "MapType (Ident ''string'') (ArrayType None (StarExpr (SelectorExpr (Ident ''time'') ''Duration'')))"]
        types_total[of "MapType (Ident ''string'') (ChanType (Ident ''int''))"
          _ _ _ _ _ "Field 34 [''c''] (MapType (Ident ''string'') (ChanType (Ident ''int'')))"
          printExpr arith_gen]
  by (simp add: formatType_def)

text \<open>
  C10.  An entry of the method list whose type is not a function signature is skipped:
  extraction gives the same result as on the list without such entries.  A list made
  of such entries only leaves the generator as it was and raises no error, so that an
  interface with embedded interfaces only gives a model with no method.
\<close>

theorem non_function_entries_skipped:
  "VisitMethodList pr r ms = VisitMethodList pr r (filter isFuncType ms) \<and>
   ((\<forall>m\<in>set ms. \<not> isFuncType m) \<longrightarrow>
      VisitMethodList pr r ms = Inr r \<and>
      RPCGen_Visit pr (initialGen fl f) (TypeSpec (rpcType fl) (InterfaceType ms)) = Inr (initialGen fl f) \<and>
      Methods (initialGen fl f) = [])"
  using VisitMethodList_filter[of pr r ms] VisitMethodList_no_func[of ms pr]
  by (simp add: InterfaceGen_Visit_def initialGen_def)

text \<open>The interface that embeds \<^verbatim>\<open>io.Reader\<close> and declares nothing else.\<close>

theorem non_function_entries_skipped_witness:
  "filter isFuncType [embedded_Reader] = [] \<and>
   VisitMethodList printExpr arith_gen [embedded_Reader] = Inr arith_gen \<and>
   Walk printExpr arith_gen (interface_go [embedded_Reader]) = Inr arith_gen \<and>
   Methods arith_gen = []"
  using non_function_entries_skipped[of printExpr arith_gen "[embedded_Reader]" arith_flags arith_go]
  by (simp add: isFuncType_def embedded_Reader_def arith_gen_def Walk_def interface_go_def
      InterfaceGen_Visit_def initialGen_def arith_flags_def)









text \<open>
  C1, as the code has it.  When extraction succeeds, the methods are those of the
  function-typed entries, in order, and the results of each are its declared results in
  declaration order without those whose formatted type is \<^verbatim>\<open>error\<close>, of which
  there is at least one.  A function-typed entry with no result of type
  \<^verbatim>\<open>error\<close> is rejected.  An entry that has a name, whose parameter and result
  fields can all be formatted and whose only result of type \<^verbatim>\<open>error\<close> is the
  last one is accepted.
\<close>

theorem error_results_excluded:
  "(VisitMethodList pr r ms = Inr r' \<longrightarrow>
      Methods r' = Methods r @ map (methodOf pr) (filter isFuncType ms) \<and>
      (\<forall>m\<in>set ms. isFuncType m \<longrightarrow>
         map Type (Results (methodOf pr m)) =
           filter (\<lambda>s. s \<noteq> ''error'') (map (\<lambda>v. pr (field_Type v)) (funcResults m)) \<and>
         map LowerNames (Results (methodOf pr m)) =
           map field_Names (filter (\<lambda>v. \<not> isError pr v) (funcResults m)) \<and>
         filter (isError pr) (funcResults m) \<noteq> [])) \<and>
   (isFuncType m \<and> filter (isError pr) (funcResults m) = [] \<longrightarrow>
      (\<exists>e. VisitMethodList pr r (m # rest) = Inl e)) \<and>
   (isFuncType m \<and> field_Names m \<noteq> [] \<and>
    (\<forall>v\<in>set (funcParams m @ funcResults m). namedField v) \<and> quotedPaths (CheckImports r) \<and>
    errorLastOnly pr (funcResults m) \<longrightarrow>
      (\<exists>im. VisitMethodList pr r [m] =
         Inr (r\<lparr>Methods := Methods r @ [methodOf pr m], Imports := im\<rparr>)))"
proof -
  have sig: "map Type (Results (methodOf pr x)) =
               filter (\<lambda>s. s \<noteq> ''error'') (map (\<lambda>v. pr (field_Type v)) (funcResults x))" for x
    by (simp add: methodOf_def filter_map comp_def isError_def)
  have low: "map LowerNames (Results (methodOf pr x)) =
               map field_Names (filter (\<lambda>v. \<not> isError pr v) (funcResults x))" for x
    by (simp add: methodOf_def typeOf_def comp_def)
  have one: "Methods r' = Methods r @ map (methodOf pr) (filter isFuncType ms) \<and>
             (\<forall>m\<in>set ms. isFuncType m \<longrightarrow> filter (isError pr) (funcResults m) \<noteq> [])"
    if a: "VisitMethodList pr r ms = Inr r'"
  proof -
    from VisitMethodList_result[OF a] obtain im where
      "r' = r\<lparr>Methods := Methods r @ map (methodOf pr) (filter isFuncType ms), Imports := im\<rparr>"
      and ok: "\<forall>m\<in>set ms. isFuncType m \<longrightarrow> entryOK pr m"
      by blast
    then have "Methods r' = Methods r @ map (methodOf pr) (filter isFuncType ms)" by simp
    moreover from ok have "\<forall>m\<in>set ms. isFuncType m \<longrightarrow> filter (isError pr) (funcResults m) \<noteq> []"
      by (auto simp: entryOK_def filter_empty_conv)
    ultimately show ?thesis by simp
  qed
  have two: "\<exists>e. VisitMethodList pr r (m # rest) = Inl e"
    if b: "isFuncType m" "filter (isError pr) (funcResults m) = []"
  proof -
    from b(2) have "\<not> entryOK pr m" by (simp add: entryOK_def filter_empty_conv)
    from VisitMethodList_head_fails[OF b(1) this] show ?thesis by blast
  qed
  have three: "\<exists>im. VisitMethodList pr r [m] =
                 Inr (r\<lparr>Methods := Methods r @ [methodOf pr m], Imports := im\<rparr>)"
    if c: "isFuncType m" "field_Names m \<noteq> []" "\<forall>v\<in>set (funcParams m @ funcResults m). namedField v"
          "quotedPaths (CheckImports r)" "errorLastOnly pr (funcResults m)"
  proof -
    from c(1) obtain ps rs where ty: "field_Type m = FuncType ps rs"
      by (cases "field_Type m") (simp_all add: isFuncType_def)
    from c(2) obtain name others where ns: "field_Names m = name # others"
      by (cases "field_Names m") auto
    from visitMethod_outcome[OF ty ns _ _ c(4), of pr] c(3) errorLastOnly_has_error[OF c(5)]
    obtain im where "visitMethod pr r m ps rs =
        Inr (r\<lparr>Methods := Methods r @ [methodOf pr m], Imports := im\<rparr>)"
      by auto
    with ty show ?thesis by auto
  qed
  from one two three sig low show ?thesis by blast
qed

text \<open>
  \<^verbatim>\<open>Add(a, b int) (result int, err error)\<close> is accepted and keeps the result
  \<^verbatim>\<open>result int\<close>; \<^verbatim>\<open>Foo(a int) int\<close> is rejected.
\<close>

theorem error_results_excluded_witness:
  "VisitMethodList printExpr arith_gen [Add] =
     Inr (arith_gen\<lparr>Methods := [\<lparr>Name = ''Add'',
            Parameters = [\<lparr>Names = [''A'', ''B''], LowerNames = [''a'', ''b''], Type = ''int''\<rparr>],
            Results = [\<lparr>Names = [''Result''], LowerNames = [''result''], Type = ''int''\<rparr>]\<rparr>]\<rparr>) \<and>
   map Type (Results (methodOf printExpr Add)) = [''int''] \<and>
   errorLastOnly printExpr (funcResults Add) \<and>
   isFuncType Foo \<and> filter (isError printExpr) (funcResults Foo) = [] \<and>
   (\<exists>e. VisitMethodList printExpr arith_gen [Foo, Add] = Inl e)"
  using error_results_excluded[of printExpr arith_gen "[Add]"
      "arith_gen\<lparr>Methods := [\<lparr>Name = ''Add'',
            Parameters = [\<lparr>Names = [''A'', ''B''], LowerNames = [''a'', ''b''], Type = ''int''\<rparr>],
            Results = [\<lparr>Names = [''Result''], LowerNames = [''result''], Type = ''int''\<rparr>]\<rparr>]\<rparr>" Foo "[Add]"]
    error_results_excluded[of printExpr arith_gen "[]" arith_gen Add "[]"]
  by (simp add: isFuncType_def isError_def errorLastOnly_def namedField_def quotedPaths_def
      example_defs run_defs)

text \<open>
  C1 as stated fails on \<^verbatim>\<open>Div(a, b int) (int, error)\<close>: exactly one declared result
  has the type \<^verbatim>\<open>error\<close> and it is the last one, yet the method is rejected,
  because its results are not named.
\<close>

theorem error_last_counterexample:
  "isFuncType Div \<and> errorLastOnly printExpr (funcResults Div) \<and>
   VisitMethodList printExpr arith_gen [Div] =
     Inl (FatalNode 45 ''RPC interface parameters and results must all be named'')"
  by (simp add: isFuncType_def isError_def errorLastOnly_def example_defs run_defs)



text \<open>
  C5, as the code has it.  A Type record produced for a field has as many public names
  and as many original names as the field binds identifiers, at least one; the i-th
  original name is the i-th identifier as declared; and, when that identifier begins
  with an ASCII character, the i-th public name is the identifier with this first
  character upper-cased and the remainder unchanged.
\<close>

theorem public_names:
  assumes "formatType pr r fld = Inr (t, r')"
  shows "1 \<le> length (field_Names fld) \<and>
         length (Names t) = length (field_Names fld) \<and>
         length (LowerNames t) = length (field_Names fld) \<and>
         (\<forall>i<length (field_Names fld).
            LowerNames t ! i = field_Names fld ! i \<and>
            ((of_char (hd (field_Names fld ! i)) :: nat) < 128 \<longrightarrow>
               Names t ! i = upperFirst (field_Names fld ! i)))"
proof -
  from formatType_result[OF assms] have t: "t = typeOf pr fld"
    and ne: "field_Names fld \<noteq> []" and nn: "[] \<notin> set (field_Names fld)"
    by simp_all
  have "Names t ! i = upperFirst (field_Names fld ! i)"
    if "i < length (field_Names fld)" "(of_char (hd (field_Names fld ! i)) :: nat) < 128" for i
  proof -
    from that(1) nn have "field_Names fld ! i \<noteq> []" by (metis nth_mem)
    from publicName_ascii[OF this that(2)] that(1) t show ?thesis by (simp add: typeOf_def)
  qed
  moreover have "1 \<le> length (field_Names fld)" using ne by (cases "field_Names fld") auto
  ultimately show ?thesis using t by (simp add: typeOf_def)
qed

text \<open>
  The field \<^verbatim>\<open>a, _b, Count int\<close>.
\<close>

theorem public_names_witness:
  "formatType printExpr arith_gen (Field 34 [''a'', ''_b'', ''Count''] (Ident ''int'')) =
     Inr (\<lparr>Names = [''A'', ''_b'', ''Count''], LowerNames = [''a'', ''_b'', ''Count''], Type = ''int''\<rparr>,
          arith_gen) \<and>
   upperFirst ''a'' = ''A'' \<and> upperFirst ''_b'' = ''_b'' \<and> upperFirst ''Count'' = ''Count''"
proof -
  have ft: "formatType printExpr arith_gen (Field 34 [''a'', ''_b'', ''Count''] (Ident ''int'')) =
     Inr (\<lparr>Names = [''A'', ''_b'', ''Count''], LowerNames = [''a'', ''_b'', ''Count''], Type = ''int''\<rparr>,
          arith_gen)"
    by (simp add: example_defs run_defs)
  from public_names[OF ft] have
    "\<forall>i<3. ((of_char (hd ([''a'', ''_b'', ''Count''] ! i)) :: nat) < 128 \<longrightarrow>
       [''A'', ''_b'', ''Count''] ! i = upperFirst ([''a'', ''_b'', ''Count''] ! i))"
    by simp
  then have "[''A'', ''_b'', ''Count''] ! 0 = upperFirst ([''a'', ''_b'', ''Count''] ! 0) \<and>
     [''A'', ''_b'', ''Count''] ! 1 = upperFirst ([''a'', ''_b'', ''Count''] ! 1) \<and>
     [''A'', ''_b'', ''Count''] ! 2 = upperFirst ([''a'', ''_b'', ''Count''] ! 2)"
    by (simp add: numeral_3_eq_3 All_less_Suc)
  with ft show ?thesis by simp
qed

text \<open>
  C5 as stated fails on an identifier that begins with a character outside ASCII, here
  the two bytes of a lower-case e with an acute accent: \<^verbatim>\<open>lowerName[0:1]\<close> is the
  first byte of the character only, its upper-casing is the replacement character, and
  the second byte stays, so that the public name is neither the identifier with its
  first character upper-cased nor an identifier with the same remainder.
\<close>

theorem public_name_counterexample:
  "formatType printExpr arith_gen (Field 34 [[CHR 0xC3, CHR 0xA9]] (Ident ''int'')) =
     Inr (\<lparr>Names = [[CHR 0xEF, CHR 0xBF, CHR 0xBD, CHR 0xA9]], LowerNames = [[CHR 0xC3, CHR 0xA9]],
           Type = ''int''\<rparr>, arith_gen) \<and>
   [CHR 0xEF, CHR 0xBF, CHR 0xBD, CHR 0xA9] \<noteq> upperFirst [CHR 0xC3, CHR 0xA9] \<and>
   tl [CHR 0xEF, CHR 0xBF, CHR 0xBD, CHR 0xA9] \<noteq> tl [CHR 0xC3, CHR 0xA9]"
  by (simp add: example_defs run_defs upperFirst_def asciiUpper_def)





end
